theory Spec2Isabelle
  imports Main
begin

section \<open>The collaborators of package ginhtmx\<close>

text \<open>
  Package ginhtmx (file ginhtmx/ginhtmx.go) renders named templates of an
  \<^verbatim>\<open>html/template\<close> set into a gin response. The package itself is some thirty lines; what
  it does to a response is decided by the calls it makes into gin and into
  \<^verbatim>\<open>html/template\<close>. Both are libraries outside the package. The functions the package
  calls are modelled here after the libraries' sources: gin's \<^verbatim>\<open>context.go\<close>,
  \<^verbatim>\<open>response_writer.go\<close> and \<^verbatim>\<open>render/data.go\<close>, and \<^verbatim>\<open>net/textproto\<close> for header names. The
  template language is not modelled: a template set is a parameter.
\<close>

subsection \<open>Values and the model map\<close>

text \<open>
  \<^verbatim>\<open>gin.H\<close> is \<^verbatim>\<open>map[string]any\<close>. Of the values a map can hold, the template engine
  tells \<^verbatim>\<open>template.HTML\<close> (inserted as it is) from every other value (escaped on output).
  A variable of type \<^verbatim>\<open>gin.H\<close> may hold the nil map: reading it is allowed, assigning to
  an entry of it panics. A variable is therefore an optional map.
\<close>

datatype any = Text string | HTML string | Number int

type_synonym gin_H = "(string \<rightharpoonup> any) option"

datatype panic =
    NilPointerDereference
  | AssignmentToEntryInNilMap

subsection \<open>The response writer of gin\<close>

text \<open>
  gin's \<^verbatim>\<open>responseWriter\<close> keeps the pending status (its field \<^verbatim>\<open>status\<close>, here
  \<open>w_status\<close>) and the number of body bytes written (its field \<^verbatim>\<open>size\<close>, here \<open>w_size\<close>;
  \<^verbatim>\<open>noWritten = -1\<close> until the header has gone out). \<open>Code\<close>, \<open>Header\<close> and \<open>Body\<close> are the
  wrapped \<^verbatim>\<open>http.ResponseWriter\<close>: the status line once sent, the header map and the bytes
  of the body.
\<close>

record responseWriter =
  w_status :: int
  w_size :: int
  Code :: "int option"
  Header :: "string \<rightharpoonup> string list"
  Body :: string

definition noWritten :: int where
  "noWritten = -1"

definition defaultStatus :: int where
  "defaultStatus = 200"

definition Written :: "responseWriter \<Rightarrow> bool" where
  "Written w = (w_size w \<noteq> noWritten)"

text \<open>
  \<^verbatim>\<open>WriteHeader\<close> only records the status, and only while nothing has been written.
\<close>

definition WriteHeader :: "responseWriter \<Rightarrow> int \<Rightarrow> responseWriter" where
  "WriteHeader w code =
     (if code > 0 \<and> w_status w \<noteq> code
      then (if Written w then w else w\<lparr>w_status := code\<rparr>)
      else w)"

definition WriteHeaderNow :: "responseWriter \<Rightarrow> responseWriter" where
  "WriteHeaderNow w =
     (if \<not> Written w then w\<lparr>w_size := 0, Code := Some (w_status w)\<rparr> else w)"

definition Write :: "responseWriter \<Rightarrow> string \<Rightarrow> responseWriter" where
  "Write w data =
     (let w1 = WriteHeaderNow w
      in w1\<lparr>Body := Body w1 @ data, w_size := w_size w1 + int (length data)\<rparr>)"

subsection \<open>The gin context\<close>

text \<open>
  Of \<^verbatim>\<open>gin.Context\<close> the package touches the request's header map and the response
  writer. \<^verbatim>\<open>http.Header\<close> is a map from canonical header names to the list of values.
\<close>

record gin_Context =
  Request_Header :: "string \<rightharpoonup> string list"
  Writer :: responseWriter

text \<open>
  \<^verbatim>\<open>textproto.CanonicalMIMEHeaderKey\<close>: the first letter and every letter after a hyphen
  in upper case, the others in lower case. (The library leaves a key with a byte that
  is no header token as it is; the package only looks up the constant \<^verbatim>\<open>HX-Request\<close>.)
\<close>

definition isLower :: "char \<Rightarrow> bool" where
  "isLower c = (97 \<le> (of_char c :: nat) \<and> (of_char c :: nat) \<le> 122)"

definition isUpper :: "char \<Rightarrow> bool" where
  "isUpper c = (65 \<le> (of_char c :: nat) \<and> (of_char c :: nat) \<le> 90)"

fun canonicalMIMEHeaderKey :: "bool \<Rightarrow> string \<Rightarrow> string" where
  "canonicalMIMEHeaderKey upper [] = []"
| "canonicalMIMEHeaderKey upper (c # a) =
     (let c1 = (if upper \<and> isLower c then char_of ((of_char c :: nat) - 32)
                else if \<not> upper \<and> isUpper c then char_of ((of_char c :: nat) + 32)
                else c)
      in c1 # canonicalMIMEHeaderKey (c1 = CHR ''-'') a)"

definition CanonicalMIMEHeaderKey :: "string \<Rightarrow> string" where
  "CanonicalMIMEHeaderKey s = canonicalMIMEHeaderKey True s"

text \<open>\<^verbatim>\<open>Header.Get\<close>: the first value stored under the canonical key, or the empty string.\<close>

definition Header_Get :: "(string \<rightharpoonup> string list) \<Rightarrow> string \<Rightarrow> string" where
  "Header_Get h key =
     (case h (CanonicalMIMEHeaderKey key) of
        None \<Rightarrow> []
      | Some v \<Rightarrow> (case v of [] \<Rightarrow> [] | x # _ \<Rightarrow> x))"

definition GetHeader :: "gin_Context \<Rightarrow> string \<Rightarrow> string" where
  "GetHeader c key = Header_Get (Request_Header c) key"

definition Status :: "gin_Context \<Rightarrow> int \<Rightarrow> gin_Context" where
  "Status c code = c\<lparr>Writer := WriteHeader (Writer c) code\<rparr>"

definition bodyAllowedForStatus :: "int \<Rightarrow> bool" where
  "bodyAllowedForStatus st =
     (if st \<ge> 100 \<and> st \<le> 199 then False
      else if st = 204 then False
      else if st = 304 then False
      else True)"

text \<open>\<^verbatim>\<open>writeContentType\<close> sets the content type unless the response already has one.\<close>

definition writeContentType :: "responseWriter \<Rightarrow> string list \<Rightarrow> responseWriter" where
  "writeContentType w val =
     (case Header w ''Content-Type'' of
        None \<Rightarrow> w\<lparr>Header := (Header w)(''Content-Type'' \<mapsto> val)\<rparr>
      | Some v \<Rightarrow> (if v = [] then w\<lparr>Header := (Header w)(''Content-Type'' \<mapsto> val)\<rparr> else w))"

text \<open>
  \<^verbatim>\<open>Context.Data(code, contentType, data)\<close> ("writes some data into the body stream and
  updates the HTTP code") is \<^verbatim>\<open>Context.Render\<close> of a \<^verbatim>\<open>render.Data\<close>: \<^verbatim>\<open>c.Status(code)\<close>, then
  the content type and the bytes; for a status that allows no body, the content type and
  the header only.
\<close>

definition Data :: "gin_Context \<Rightarrow> int \<Rightarrow> string \<Rightarrow> string \<Rightarrow> gin_Context" where
  "Data c code contentType data =
     (let c1 = Status c code
      in if \<not> bodyAllowedForStatus code
         then c1\<lparr>Writer := WriteHeaderNow (writeContentType (Writer c1) [contentType])\<rparr>
         else c1\<lparr>Writer := Write (writeContentType (Writer c1) [contentType]) data\<rparr>)"

subsection \<open>The template set\<close>

text \<open>
  A \<^verbatim>\<open>*template.Template\<close> is a namespace of named templates, or nil. Executing a template
  against a model hands pieces of output to an \<^verbatim>\<open>io.Writer\<close>, one \<^verbatim>\<open>Write\<close> call each, and
  may stop with an error after any of them. A template is therefore a function from the
  model to the pieces written and the error, if any.
\<close>

datatype exec_error = Undefined string | ExecError

type_synonym executed = "string list \<times> exec_error option"

type_synonym Template = "string \<rightharpoonup> (gin_H \<Rightarrow> executed)"

text \<open>
  \<^verbatim>\<open>ExecuteTemplate(wr, name, data)\<close>. On a nil template set the lookup dereferences nil;
  an unknown name is an error that writes nothing. The writer is any \<^verbatim>\<open>io.Writer\<close>:
  its \<^verbatim>\<open>Write\<close> is the parameter \<open>write\<close>.
\<close>

definition ExecuteTemplate ::
  "Template option \<Rightarrow> ('w \<Rightarrow> string \<Rightarrow> 'w) \<Rightarrow> 'w \<Rightarrow> string \<Rightarrow> gin_H \<Rightarrow> panic + ('w \<times> exec_error option)" where
  "ExecuteTemplate t write wr name data =
     (case t of
        None \<Rightarrow> Inl NilPointerDereference
      | Some ts \<Rightarrow>
          (case ts name of
             None \<Rightarrow> Inr (wr, Some (Undefined name))
           | Some tmpl \<Rightarrow> (case tmpl data of (pieces, err) \<Rightarrow> Inr (foldl write wr pieces, err))))"

section \<open>Package ginhtmx\<close>

text \<open>
  \<^verbatim>\<open>ModelDecorator\<close> is an interface with the one method
  \<^verbatim>\<open>DecorateModel(ginContext *gin.Context, model *gin.H)\<close>: through its two pointers an
  implementation may change the context and may change or replace the map.
\<close>

type_synonym ModelDecorator = "gin_Context \<Rightarrow> gin_H \<Rightarrow> gin_Context \<times> gin_H"

record HtmxConfig =
  LayoutTemplateName :: string
  ContentVariableName :: string
  ModelDecorator :: "ModelDecorator option"

record Htmx =
  template :: "Template option"
  config :: HtmxConfig

definition NewHtmxWithConfig :: "Template option \<Rightarrow> HtmxConfig \<Rightarrow> Htmx" where
  "NewHtmxWithConfig t cfg = \<lparr>template = t, config = cfg\<rparr>"

definition NewHtmx :: "Template option \<Rightarrow> Htmx" where
  "NewHtmx t =
     \<lparr>template = t,
      config = \<lparr>LayoutTemplateName = ''layout'',
                ContentVariableName = ''Content'',
                ModelDecorator = None\<rparr>\<rparr>"

text \<open>
  \<^verbatim>\<open>buffer.Write\<close> appends to the byte slice and reports every byte written and no error.
\<close>

type_synonym buffer = string

definition buffer_Write :: "buffer \<Rightarrow> string \<Rightarrow> buffer" where
  "buffer_Write w p = w @ p"

text \<open>
  \<^verbatim>\<open>renderTemplateToString\<close> executes one template into a fresh buffer and drops the
  error of the execution.
\<close>

definition renderTemplateToString :: "Htmx \<Rightarrow> string \<Rightarrow> gin_H \<Rightarrow> panic + string" where
  "renderTemplateToString htmx name data =
     (case ExecuteTemplate (template htmx) buffer_Write [] name data of
        Inl p \<Rightarrow> Inl p
      | Inr (writer, _) \<Rightarrow> Inr writer)"

text \<open>
  The calls a render makes into its collaborators, in program order. An execution
  names the writer it was given: the private buffer or the response writer.
\<close>

datatype sink = IntoBuffer | IntoWriter

datatype call =
    CallStatus int
  | CallGetHeader string
  | CallDecorateModel
  | CallExecuteTemplate sink string gin_H
  | CallData int string string

text \<open>
  The result of a render that returns: the context and the map that the variable
  \<^verbatim>\<open>data\<close> holds at the end, and the calls made.
\<close>

record rendered =
  ctx :: gin_Context
  model :: gin_H
  calls :: "call list"

text \<open>
  The loop of \<^verbatim>\<open>RenderWithStatus\<close>, on the variable \<^verbatim>\<open>content\<close> and the calls made so far:
  \<^verbatim>\<open>for _, name := range templateNames { content += htmx.renderTemplateToString(name, data) }\<close>
\<close>

fun renderTemplates ::
  "Htmx \<Rightarrow> string list \<Rightarrow> gin_H \<Rightarrow> string \<Rightarrow> call list \<Rightarrow> panic + (string \<times> call list)" where
  "renderTemplates htmx [] data content log = Inr (content, log)"
| "renderTemplates htmx (name # templateNames) data content log =
     (case renderTemplateToString htmx name data of
        Inl p \<Rightarrow> Inl p
      | Inr s \<Rightarrow>
          renderTemplates htmx templateNames data (content @ s)
            (log @ [CallExecuteTemplate IntoBuffer name data]))"

definition StatusOK :: int where
  "StatusOK = 200"

definition RenderWithStatus ::
  "Htmx \<Rightarrow> gin_Context \<Rightarrow> gin_H \<Rightarrow> int \<Rightarrow> string list \<Rightarrow> panic + rendered" where
  "RenderWithStatus htmx ginContext data status templateNames =
     (let c1 = Status ginContext status;
          log1 = [CallStatus status];
          isHTMX = (GetHeader c1 ''HX-Request'' \<noteq> []);
          log2 = log1 @ [CallGetHeader ''HX-Request''];
          (c2, data2, log3) =
            (case ModelDecorator (config htmx) of
               None \<Rightarrow> (c1, data, log2)
             | Some decorator \<Rightarrow>
                 (case decorator c1 data of
                    (c, decorated) \<Rightarrow> (c, decorated, log2 @ [CallDecorateModel])))
      in case renderTemplates htmx templateNames data2 [] log3 of
           Inl p \<Rightarrow> Inl p
         | Inr (content, log4) \<Rightarrow>
             if isHTMX
             then Inr \<lparr>ctx = Data c2 StatusOK ''text/html; charset=utf-8'' content,
                       model = data2,
                       calls = log4 @ [CallData StatusOK ''text/html; charset=utf-8'' content]\<rparr>
             else (case data2 of
                     None \<Rightarrow> Inl AssignmentToEntryInNilMap
                   | Some m \<Rightarrow>
                       (let data3 = Some (m(ContentVariableName (config htmx) \<mapsto> HTML content))
                        in case ExecuteTemplate (template htmx) Write (Writer c2)
                                  (LayoutTemplateName (config htmx)) data3 of
                             Inl p \<Rightarrow> Inl p
                           | Inr (w, _) \<Rightarrow>
                               Inr \<lparr>ctx = c2\<lparr>Writer := w\<rparr>,
                                    model = data3,
                                    calls = log4 @ [CallExecuteTemplate IntoWriter
                                               (LayoutTemplateName (config htmx)) data3]\<rparr>)))"

definition Render :: "Htmx \<Rightarrow> gin_Context \<Rightarrow> gin_H \<Rightarrow> string list \<Rightarrow> panic + rendered" where
  "Render htmx c data templateNames = RenderWithStatus htmx c data StatusOK templateNames"

section \<open>Notions used to state the properties\<close>

text \<open>
  What executing one template of a set hands to its writer: the pieces written, up to
  the error if there is one, and none for an unknown name; \<open>execute\<close> is their text.
\<close>

definition pieces :: "Template \<Rightarrow> string \<Rightarrow> gin_H \<Rightarrow> string list" where
  "pieces ts name data = (case ts name of None \<Rightarrow> [] | Some tmpl \<Rightarrow> fst (tmpl data))"

definition execute :: "Template \<Rightarrow> string \<Rightarrow> gin_H \<Rightarrow> string" where
  "execute ts name data = concat (pieces ts name data)"

text \<open>
  The template set that writes what \<open>ts\<close> writes and never reports an error: every
  template stops where it stops in \<open>ts\<close>, and an unknown name is an empty template.
\<close>

definition withoutErrors :: "Template \<Rightarrow> Template" where
  "withoutErrors ts name =
     (case ts name of
        None \<Rightarrow> Some (\<lambda>data. ([], None))
      | Some tmpl \<Rightarrow> Some (\<lambda>data. (fst (tmpl data), None)))"

text \<open>
  The context and the model after the decorator, if one is configured, has run, and the
  calls that step makes.
\<close>

definition decorate :: "Htmx \<Rightarrow> gin_Context \<Rightarrow> gin_H \<Rightarrow> gin_Context \<times> gin_H" where
  "decorate htmx c data =
     (case ModelDecorator (config htmx) of
        None \<Rightarrow> (c, data)
      | Some d \<Rightarrow> d c data)"

definition decorateCalls :: "Htmx \<Rightarrow> call list" where
  "decorateCalls htmx =
     (case ModelDecorator (config htmx) of None \<Rightarrow> [] | Some d \<Rightarrow> [CallDecorateModel])"

text \<open>The request is a fragment request: the test \<^verbatim>\<open>GetHeader("HX-Request") != ""\<close>.\<close>

definition isHTMX :: "gin_Context \<Rightarrow> bool" where
  "isHTMX c = (GetHeader c ''HX-Request'' \<noteq> [])"

section \<open>A template set and requests to run the renderer on\<close>

text \<open>
  The templates of the package's tests, reduced: \<open>hello\<close> greets \<^verbatim>\<open>.Name\<close> and fails after
  its first piece when the model has no text under that key; \<open>layout\<close> wraps \<^verbatim>\<open>.Content\<close>
  and fails after its first piece when the model has no raw HTML under that key.
\<close>

definition hello :: "gin_H \<Rightarrow> executed" where
  "hello data =
     (case data of
        None \<Rightarrow> ([''<h1>Hello, ''], Some ExecError)
      | Some m \<Rightarrow>
          (case m ''Name'' of
             Some (Text n) \<Rightarrow> ([''<h1>Hello, '', n, ''!</h1>''], None)
           | _ \<Rightarrow> ([''<h1>Hello, ''], Some ExecError)))"

definition layout :: "gin_H \<Rightarrow> executed" where
  "layout data =
     (case data of
        None \<Rightarrow> ([''<div>MENU</div><div>''], Some ExecError)
      | Some m \<Rightarrow>
          (case m ''Content'' of
             Some (HTML s) \<Rightarrow> ([''<div>MENU</div><div>'', s, ''</div><div>FOOT</div>''], None)
           | _ \<Rightarrow> ([''<div>MENU</div><div>''], Some ExecError)))"

definition testTemplates :: Template where
  "testTemplates = [''layout'' \<mapsto> layout, ''hello'' \<mapsto> hello]"

text \<open>A response nothing has been written to, as gin hands it to a handler.\<close>

definition newWriter :: responseWriter where
  "newWriter =
     \<lparr>w_status = defaultStatus, w_size = noWritten, Code = None, Header = Map.empty, Body = []\<rparr>"

definition plainRequest :: gin_Context where
  "plainRequest = \<lparr>Request_Header = Map.empty, Writer = newWriter\<rparr>"

definition htmxRequest :: gin_Context where
  "htmxRequest = \<lparr>Request_Header = [''Hx-Request'' \<mapsto> [''true'']], Writer = newWriter\<rparr>"

definition jerry :: gin_H where
  "jerry = Some [''Name'' \<mapsto> Text ''Jerry'']"

text \<open>A decorator that stores \<^verbatim>\<open>"v"\<close> under the key \<^verbatim>\<open>"X"\<close>, in a new map if the model is nil.\<close>

definition addX :: ModelDecorator where
  "addX c data =
     (c, case data of None \<Rightarrow> Some [''X'' \<mapsto> Text ''v''] | Some m \<Rightarrow> Some (m(''X'' \<mapsto> Text ''v'')))"

section \<open>Facts about the collaborators\<close>

lemma canonical_HX_Request: "CanonicalMIMEHeaderKey ''HX-Request'' = ''Hx-Request''"
  by code_simp

text \<open>
  The test for a fragment request reads the first value stored under \<^verbatim>\<open>Hx-Request\<close>, the
  canonical form of the key: it holds when that value exists and is not empty.
\<close>

lemma isHTMX_iff:
  "isHTMX c \<longleftrightarrow> (\<exists>v vs. Request_Header c ''Hx-Request'' = Some (v # vs) \<and> v \<noteq> [])"
  by (auto simp: isHTMX_def GetHeader_def Header_Get_def canonical_HX_Request
      split: option.splits list.splits)

lemma isHTMX_Status: "(GetHeader (Status c code) ''HX-Request'' \<noteq> []) = isHTMX c"
  by (simp add: isHTMX_def GetHeader_def Status_def)

lemma foldl_buffer_Write: "foldl buffer_Write w ps = w @ concat ps"
  by (induction ps arbitrary: w) (simp_all add: buffer_Write_def)

lemma Body_Write: "Body (Write w p) = Body w @ p"
  by (simp add: Write_def WriteHeaderNow_def Let_def)

lemma w_status_Write: "w_status (Write w p) = w_status w"
  by (simp add: Write_def WriteHeaderNow_def Let_def)


lemma w_status_foldl_Write: "w_status (foldl Write w ps) = w_status w"
  by (induction ps arbitrary: w) (simp_all add: w_status_Write)

lemma Body_Data: "Body (Writer (Data c StatusOK contentType p)) = Body (Writer c) @ p"
  by (simp add: Data_def Let_def bodyAllowedForStatus_def StatusOK_def Status_def WriteHeader_def
      writeContentType_def Body_Write split: option.splits)

lemma Header_Data:
  "Header (Writer c) ''Content-Type'' = None \<Longrightarrow>
   Header (Writer (Data c StatusOK contentType p)) ''Content-Type'' = Some [contentType]"
  by (simp add: Data_def Let_def bodyAllowedForStatus_def StatusOK_def Status_def WriteHeader_def
      writeContentType_def Write_def WriteHeaderNow_def)

lemma status_Data:
  "\<not> Written (Writer c) \<Longrightarrow>
   w_status (Writer (Data c StatusOK contentType p)) = StatusOK
   \<and> Code (Writer (Data c StatusOK contentType p)) = Some StatusOK"
  by (simp add: Data_def Let_def bodyAllowedForStatus_def StatusOK_def Status_def WriteHeader_def
      writeContentType_def Write_def WriteHeaderNow_def Written_def split: option.splits)

lemma ExecuteTemplate_Some:
  "ExecuteTemplate (Some ts) write wr name data =
     Inr (foldl write wr (pieces ts name data),
          case ts name of None \<Rightarrow> Some (Undefined name) | Some tmpl \<Rightarrow> snd (tmpl data))"
  by (simp add: ExecuteTemplate_def pieces_def split: option.splits prod.splits)

section \<open>Facts about the package\<close>

lemma renderTemplateToString_Some:
  "template htmx = Some ts \<Longrightarrow> renderTemplateToString htmx name data = Inr (execute ts name data)"
  by (simp add: renderTemplateToString_def ExecuteTemplate_Some execute_def foldl_buffer_Write)

lemma renderTemplateToString_None:
  "template htmx = None \<Longrightarrow> renderTemplateToString htmx name data = Inl NilPointerDereference"
  by (simp add: renderTemplateToString_def ExecuteTemplate_def)

lemma renderTemplates_Some:
  "template htmx = Some ts \<Longrightarrow>
   renderTemplates htmx names data content log
     = Inr (content @ concat (map (\<lambda>name. execute ts name data) names),
            log @ map (\<lambda>name. CallExecuteTemplate IntoBuffer name data) names)"
  by (induction names arbitrary: content log) (simp_all add: renderTemplateToString_Some)

lemma renderTemplates_None:
  "template htmx = None \<Longrightarrow>
   renderTemplates htmx names data content log
     = (if names = [] then Inr (content, log) else Inl NilPointerDereference)"
  by (cases names) (simp_all add: renderTemplateToString_None)

lemma renderTemplates_log:
  "renderTemplates htmx names data content log = Inr (content', log') \<Longrightarrow>
   log' = log @ map (\<lambda>name. CallExecuteTemplate IntoBuffer name data) names"
proof (induction names arbitrary: content log)
  case Nil
  then show ?case by simp
next
  case (Cons name names)
  from Cons.prems obtain s where
    "renderTemplates htmx names data (content @ s)
       (log @ [CallExecuteTemplate IntoBuffer name data]) = Inr (content', log')"
    by (auto split: sum.splits)
  from Cons.IH [OF this] show ?case by simp
qed

lemma renderTemplates_any_log:
  "renderTemplates htmx names data content log = Inr (content', log') \<Longrightarrow>
   renderTemplates htmx names data content l
     = Inr (content', l @ map (\<lambda>name. CallExecuteTemplate IntoBuffer name data) names)"
proof (induction names arbitrary: content log l)
  case Nil
  then show ?case by simp
next
  case (Cons name names)
  from Cons.prems obtain s where s: "renderTemplateToString htmx name data = Inr s"
    and rest: "renderTemplates htmx names data (content @ s)
       (log @ [CallExecuteTemplate IntoBuffer name data]) = Inr (content', log')"
    by (auto split: sum.splits)
  from Cons.IH [OF rest, of "l @ [CallExecuteTemplate IntoBuffer name data]"] s
  show ?case by simp
qed

lemma decorate_cases:
  "(case ModelDecorator (config htmx) of
      None \<Rightarrow> (c, data, log)
    | Some decorator \<Rightarrow>
        (case decorator c data of (c', decorated) \<Rightarrow> (c', decorated, log @ [CallDecorateModel])))
   = (fst (decorate htmx c data), snd (decorate htmx c data), log @ decorateCalls htmx)"
  by (simp add: decorate_def decorateCalls_def split: option.splits prod.splits)

text \<open>The render, with the decorator step and the header test named.\<close>

lemma RenderWithStatus_eq:
  assumes "decorate htmx (Status c status) data = (c2, data2)"
  shows "RenderWithStatus htmx c data status names =
     (case renderTemplates htmx names data2 []
             ([CallStatus status, CallGetHeader ''HX-Request''] @ decorateCalls htmx) of
        Inl p \<Rightarrow> Inl p
      | Inr (content, log) \<Rightarrow>
          if isHTMX c
          then Inr \<lparr>ctx = Data c2 StatusOK ''text/html; charset=utf-8'' content,
                    model = data2,
                    calls = log @ [CallData StatusOK ''text/html; charset=utf-8'' content]\<rparr>
          else (case data2 of
                  None \<Rightarrow> Inl AssignmentToEntryInNilMap
                | Some m \<Rightarrow>
                    (case ExecuteTemplate (template htmx) Write (Writer c2)
                            (LayoutTemplateName (config htmx))
                            (Some (m(ContentVariableName (config htmx) \<mapsto> HTML content))) of
                       Inl p \<Rightarrow> Inl p
                     | Inr (w, _) \<Rightarrow>
                         Inr \<lparr>ctx = c2\<lparr>Writer := w\<rparr>,
                              model = Some (m(ContentVariableName (config htmx) \<mapsto> HTML content)),
                              calls = log @ [CallExecuteTemplate IntoWriter
                                         (LayoutTemplateName (config htmx))
                                         (Some (m(ContentVariableName (config htmx) \<mapsto>
                                                   HTML content)))]\<rparr>)))"
  using assms
  by (simp add: RenderWithStatus_def Let_def decorate_cases isHTMX_Status
      split: sum.splits prod.splits option.splits)

lemma RenderWithStatus_fragment:
  assumes "isHTMX c" and "template htmx = Some ts"
    and "decorate htmx (Status c status) data = (c2, data2)"
    and "content = concat (map (\<lambda>name. execute ts name data2) names)"
  shows "RenderWithStatus htmx c data status names =
     Inr \<lparr>ctx = Data c2 StatusOK ''text/html; charset=utf-8'' content,
          model = data2,
          calls = [CallStatus status, CallGetHeader ''HX-Request''] @ decorateCalls htmx
                  @ map (\<lambda>name. CallExecuteTemplate IntoBuffer name data2) names
                  @ [CallData StatusOK ''text/html; charset=utf-8'' content]\<rparr>"
  using assms(1,2,4)
  by (simp add: RenderWithStatus_eq [OF assms(3)] renderTemplates_Some)

lemma RenderWithStatus_page:
  assumes "\<not> isHTMX c" and "template htmx = Some ts"
    and "decorate htmx (Status c status) data = (c2, Some m)"
    and "data3 = Some (m(ContentVariableName (config htmx) \<mapsto>
                     HTML (concat (map (\<lambda>name. execute ts name (Some m)) names))))"
  shows "RenderWithStatus htmx c data status names =
     Inr \<lparr>ctx = c2\<lparr>Writer := foldl Write (Writer c2)
                                (pieces ts (LayoutTemplateName (config htmx)) data3)\<rparr>,
          model = data3,
          calls = [CallStatus status, CallGetHeader ''HX-Request''] @ decorateCalls htmx
                  @ map (\<lambda>name. CallExecuteTemplate IntoBuffer name (Some m)) names
                  @ [CallExecuteTemplate IntoWriter (LayoutTemplateName (config htmx)) data3]\<rparr>"
  using assms(1,2,4)
  by (simp add: RenderWithStatus_eq [OF assms(3)] renderTemplates_Some ExecuteTemplate_Some)

text \<open>Every render that returns went through one of the two branches.\<close>

lemma RenderWithStatus_Inr:
  assumes "RenderWithStatus htmx c data status names = Inr r"
    and "decorate htmx (Status c status) data = (c2, data2)"
  shows "\<exists>content.
     renderTemplates htmx names data2 [] []
       = Inr (content, map (\<lambda>name. CallExecuteTemplate IntoBuffer name data2) names) \<and>
     calls r = [CallStatus status, CallGetHeader ''HX-Request''] @ decorateCalls htmx
                  @ map (\<lambda>name. CallExecuteTemplate IntoBuffer name data2) names
                  @ [if isHTMX c then CallData StatusOK ''text/html; charset=utf-8'' content
                     else CallExecuteTemplate IntoWriter (LayoutTemplateName (config htmx)) (model r)] \<and>
     (if isHTMX c
      then model r = data2 \<and> ctx r = Data c2 StatusOK ''text/html; charset=utf-8'' content
      else \<exists>m. data2 = Some m \<and>
             model r = Some (m(ContentVariableName (config htmx) \<mapsto> HTML content)))"
proof -
  obtain content log where loop:
    "renderTemplates htmx names data2 []
       ([CallStatus status, CallGetHeader ''HX-Request''] @ decorateCalls htmx) = Inr (content, log)"
    using assms(1) by (auto simp: RenderWithStatus_eq [OF assms(2)] split: sum.splits)
  note log = renderTemplates_log [OF loop] and any = renderTemplates_any_log [OF loop, of "[]"]
  show ?thesis
    using assms(1) loop log any
    by (auto simp: RenderWithStatus_eq [OF assms(2)] split: if_splits option.splits sum.splits)
qed

section \<open>Running the renderer\<close>

lemmas run =
  RenderWithStatus_def Let_def NewHtmx_def NewHtmxWithConfig_def decorate_def decorateCalls_def
  renderTemplateToString_def ExecuteTemplate_def testTemplates_def hello_def layout_def
  jerry_def addX_def htmxRequest_def plainRequest_def newWriter_def isHTMX_def GetHeader_def
  Header_Get_def canonical_HX_Request Status_def WriteHeader_def Written_def noWritten_def
  defaultStatus_def StatusOK_def Data_def bodyAllowedForStatus_def writeContentType_def
  Write_def WriteHeaderNow_def buffer_Write_def execute_def pieces_def

section \<open>Properties\<close>

text \<open>
  Claim C1: the status of the response is the \<open>status\<close> argument, in the fragment branch
  and in the full-page branch. The fragment branch hands \<^verbatim>\<open>http.StatusOK\<close> to \<^verbatim>\<open>Data\<close>, which
  updates the status: a fragment request rendered with status 404 over a response nothing
  was written to is answered with status 200, pending and sent.
\<close>

theorem fragment_status_is_200:
  "RenderWithStatus (NewHtmx (Some testTemplates)) htmxRequest jerry 404 [''hello''] =
     Inr \<lparr>ctx = htmxRequest\<lparr>Writer :=
                   \<lparr>w_status = 200, w_size = 22, Code = Some 200,
                    Header = [''Content-Type'' \<mapsto> [''text/html; charset=utf-8'']],
                    Body = ''<h1>Hello, Jerry!</h1>''\<rparr>\<rparr>,
          model = jerry,
          calls = [CallStatus 404, CallGetHeader ''HX-Request'',
                   CallExecuteTemplate IntoBuffer ''hello'' jerry,
                   CallData 200 ''text/html; charset=utf-8'' ''<h1>Hello, Jerry!</h1>'']\<rparr>"
  by (simp add: run)

text \<open>
  Claim C2: on a fragment request (a non-empty \<^verbatim>\<open>HX-Request\<close> value) the render returns, the
  bytes it adds to the body are exactly the outputs of the named templates, concatenated
  in order; they go out through one \<^verbatim>\<open>Data\<close> call with the content type
  \<^verbatim>\<open>text/html; charset=utf-8\<close>, which becomes the response's content type when it has none
  yet; and the only template executions are those of the named templates into buffers:
  nothing is executed into the response writer, so the layout does not run.
\<close>

theorem fragment_bypass:
  assumes "isHTMX c" and "template htmx = Some ts"
    and "decorate htmx (Status c status) data = (c2, data2)"
    and "content = concat (map (\<lambda>name. execute ts name data2) templateNames)"
  shows "\<exists>r. RenderWithStatus htmx c data status templateNames = Inr r
     \<and> Body (Writer (ctx r)) = Body (Writer c2) @ content
     \<and> (Header (Writer c2) ''Content-Type'' = None \<longrightarrow>
          Header (Writer (ctx r)) ''Content-Type'' = Some [''text/html; charset=utf-8''])
     \<and> calls r = [CallStatus status, CallGetHeader ''HX-Request''] @ decorateCalls htmx
                  @ map (\<lambda>name. CallExecuteTemplate IntoBuffer name data2) templateNames
                  @ [CallData StatusOK ''text/html; charset=utf-8'' content]
     \<and> (\<forall>name d. CallExecuteTemplate IntoWriter name d \<notin> set (calls r))"
proof -
  have "decorateCalls htmx = [] \<or> decorateCalls htmx = [CallDecorateModel]"
    by (simp add: decorateCalls_def split: option.splits)
  then show ?thesis
    using RenderWithStatus_fragment [OF assms]
    by (auto simp: Body_Data Header_Data)
qed

theorem fragment_bypass_witness:
  "isHTMX htmxRequest \<and>
   (\<exists>r. RenderWithStatus (NewHtmx (Some testTemplates)) htmxRequest jerry 200 [''hello''] = Inr r
     \<and> Body (Writer (ctx r)) = ''<h1>Hello, Jerry!</h1>''
     \<and> Header (Writer (ctx r)) ''Content-Type'' = Some [''text/html; charset=utf-8'']
     \<and> calls r = [CallStatus 200, CallGetHeader ''HX-Request'',
                  CallExecuteTemplate IntoBuffer ''hello'' jerry,
                  CallData 200 ''text/html; charset=utf-8'' ''<h1>Hello, Jerry!</h1>''])"
proof -
  have h1: "isHTMX htmxRequest"
    by (simp add: run)
  have h2: "template (NewHtmx (Some testTemplates)) = Some testTemplates"
    by (simp add: NewHtmx_def)
  have h3: "decorate (NewHtmx (Some testTemplates)) (Status htmxRequest 200) jerry
              = (htmxRequest, jerry)"
    by (simp add: run)
  have h4: "''<h1>Hello, Jerry!</h1>''
              = concat (map (\<lambda>name. execute testTemplates name jerry) [''hello''])"
    by (simp add: run)
  show ?thesis
    using h1 fragment_bypass [OF h1 h2 h3 h4]
    by (simp add: run)
qed



text \<open>
  Claim C4: the content of a render is the concatenation, in the order given, of what
  each named template renders on its own against the model; for two names \<open>a\<close> and \<open>b\<close> it
  is \<open>execute a @ execute b\<close>. That content is the payload of a fragment response and the
  value stored under the content variable of a full-page one.
\<close>

theorem concatenation_order:
  assumes "template htmx = Some ts"
    and "decorate htmx (Status c status) data = (c2, data2)"
    and "content = concat (map (\<lambda>name. execute ts name data2) templateNames)"
  shows "(\<forall>name. renderTemplateToString htmx name data2 = Inr (execute ts name data2))
     \<and> renderTemplates htmx templateNames data2 [] []
         = Inr (content, map (\<lambda>name. CallExecuteTemplate IntoBuffer name data2) templateNames)
     \<and> (\<forall>a b. templateNames = [a, b] \<longrightarrow> content = execute ts a data2 @ execute ts b data2)
     \<and> (isHTMX c \<longrightarrow>
          (\<exists>r. RenderWithStatus htmx c data status templateNames = Inr r
             \<and> last (calls r) = CallData StatusOK ''text/html; charset=utf-8'' content
             \<and> Body (Writer (ctx r)) = Body (Writer c2) @ content))
     \<and> (\<forall>m. \<not> isHTMX c \<and> data2 = Some m \<longrightarrow>
          (\<exists>r. RenderWithStatus htmx c data status templateNames = Inr r
             \<and> model r = Some (m(ContentVariableName (config htmx) \<mapsto> HTML content))))"
proof -
  have one: "\<forall>name. renderTemplateToString htmx name data2 = Inr (execute ts name data2)"
    using assms(1) by (simp add: renderTemplateToString_Some)
  have loop: "renderTemplates htmx templateNames data2 [] []
         = Inr (content, map (\<lambda>name. CallExecuteTemplate IntoBuffer name data2) templateNames)"
    using assms(1,3) by (simp add: renderTemplates_Some)
  have two: "\<forall>a b. templateNames = [a, b] \<longrightarrow> content = execute ts a data2 @ execute ts b data2"
    using assms(3) by simp
  have frag: "\<exists>r. RenderWithStatus htmx c data status templateNames = Inr r
             \<and> last (calls r) = CallData StatusOK ''text/html; charset=utf-8'' content
             \<and> Body (Writer (ctx r)) = Body (Writer c2) @ content" if "isHTMX c"
    using RenderWithStatus_fragment [OF that assms] by (simp add: Body_Data)
  have page: "\<exists>r. RenderWithStatus htmx c data status templateNames = Inr r
             \<and> model r = Some (m(ContentVariableName (config htmx) \<mapsto> HTML content))"
    if "\<not> isHTMX c" and "data2 = Some m" for m
    using RenderWithStatus_page [OF that(1) assms(1) assms(2) [unfolded that(2)] refl,
        of templateNames] assms(3) that(2)
    by simp
  from one loop two frag page show ?thesis
    by blast
qed

theorem concatenation_order_witness:
  "isHTMX htmxRequest
   \<and> (\<exists>r. RenderWithStatus (NewHtmx (Some testTemplates)) htmxRequest jerry 200
             [''hello'', ''layout''] = Inr r
        \<and> last (calls r) = CallData 200 ''text/html; charset=utf-8''
                              ''<h1>Hello, Jerry!</h1><div>MENU</div><div>''
        \<and> Body (Writer (ctx r)) = ''<h1>Hello, Jerry!</h1><div>MENU</div><div>'')
   \<and> ''<h1>Hello, Jerry!</h1><div>MENU</div><div>''
       = execute testTemplates ''hello'' jerry @ execute testTemplates ''layout'' jerry
   \<and> renderTemplates (NewHtmx (Some testTemplates)) [''hello'', ''layout''] jerry [] []
       = Inr (''<h1>Hello, Jerry!</h1><div>MENU</div><div>'',
              [CallExecuteTemplate IntoBuffer ''hello'' jerry,
               CallExecuteTemplate IntoBuffer ''layout'' jerry])"
proof -
  have h0: "isHTMX htmxRequest"
    by (simp add: run)
  have h1: "template (NewHtmx (Some testTemplates)) = Some testTemplates"
    by (simp add: NewHtmx_def)
  have h2: "decorate (NewHtmx (Some testTemplates)) (Status htmxRequest 200) jerry
              = (htmxRequest, jerry)"
    by (simp add: run)
  have h3: "''<h1>Hello, Jerry!</h1><div>MENU</div><div>''
              = concat (map (\<lambda>name. execute testTemplates name jerry) [''hello'', ''layout''])"
    by (simp add: run)
  note order = concatenation_order [OF h1 h2 h3]
  from order have frag: "isHTMX htmxRequest \<longrightarrow>
      (\<exists>r. RenderWithStatus (NewHtmx (Some testTemplates)) htmxRequest jerry 200
             [''hello'', ''layout''] = Inr r
        \<and> last (calls r) = CallData StatusOK ''text/html; charset=utf-8''
                              ''<h1>Hello, Jerry!</h1><div>MENU</div><div>''
        \<and> Body (Writer (ctx r))
            = Body (Writer htmxRequest) @ ''<h1>Hello, Jerry!</h1><div>MENU</div><div>'')"
    by blast
  from order have two: "''<h1>Hello, Jerry!</h1><div>MENU</div><div>''
       = execute testTemplates ''hello'' jerry @ execute testTemplates ''layout'' jerry"
    by blast
  from order have "renderTemplates (NewHtmx (Some testTemplates)) [''hello'', ''layout''] jerry [] []
       = Inr (''<h1>Hello, Jerry!</h1><div>MENU</div><div>'',
              map (\<lambda>name. CallExecuteTemplate IntoBuffer name jerry) [''hello'', ''layout''])"
    by blast
  then have loop: "renderTemplates (NewHtmx (Some testTemplates)) [''hello'', ''layout''] jerry [] []
       = Inr (''<h1>Hello, Jerry!</h1><div>MENU</div><div>'',
              [CallExecuteTemplate IntoBuffer ''hello'' jerry,
               CallExecuteTemplate IntoBuffer ''layout'' jerry])"
    by simp
  from frag h0 have "\<exists>r. RenderWithStatus (NewHtmx (Some testTemplates)) htmxRequest jerry 200
             [''hello'', ''layout''] = Inr r
        \<and> last (calls r) = CallData 200 ''text/html; charset=utf-8''
                              ''<h1>Hello, Jerry!</h1><div>MENU</div><div>''
        \<and> Body (Writer (ctx r)) = ''<h1>Hello, Jerry!</h1><div>MENU</div><div>''"
    by (simp add: StatusOK_def htmxRequest_def newWriter_def)
  with h0 two loop show ?thesis
    by blast
qed

text \<open>
  Claim C5: with a decorator configured, a render that returns has called
  \<^verbatim>\<open>DecorateModel\<close> exactly once, right after reading the header and before every template
  execution, in both branches; every content template is executed against the model the
  decorator left, and the layout against that model with the content added. With a
  template set (and, in full-page mode, a non-nil model) the render does return.
\<close>

theorem decorator_once_before_templates:
  assumes "ModelDecorator (config htmx) = Some d"
    and "d (Status c status) data = (c2, data2)"
  shows "(template htmx \<noteq> None \<and> (isHTMX c \<or> data2 \<noteq> None) \<longrightarrow>
          (\<exists>r. RenderWithStatus htmx c data status templateNames = Inr r))
     \<and> (\<forall>r. RenderWithStatus htmx c data status templateNames = Inr r \<longrightarrow>
          count_list (calls r) CallDecorateModel = 1
          \<and> (\<exists>content.
               calls r = [CallStatus status, CallGetHeader ''HX-Request'', CallDecorateModel]
                         @ map (\<lambda>name. CallExecuteTemplate IntoBuffer name data2) templateNames
                         @ [if isHTMX c
                            then CallData StatusOK ''text/html; charset=utf-8'' content
                            else CallExecuteTemplate IntoWriter
                                   (LayoutTemplateName (config htmx)) (model r)]
               \<and> renderTemplates htmx templateNames data2 [] []
                   = Inr (content,
                          map (\<lambda>name. CallExecuteTemplate IntoBuffer name data2) templateNames)
               \<and> (if isHTMX c then model r = data2
                   else \<exists>m. data2 = Some m
                        \<and> model r = Some (m(ContentVariableName (config htmx) \<mapsto> HTML content)))))"
proof -
  have dec: "decorate htmx (Status c status) data = (c2, data2)"
    using assms by (simp add: decorate_def)
  have dc: "decorateCalls htmx = [CallDecorateModel]"
    using assms(1) by (simp add: decorateCalls_def)
  have cnt: "count_list (map (\<lambda>name. CallExecuteTemplate IntoBuffer name data2) names)
               CallDecorateModel = 0" for names
    by (induction names) simp_all
  have returns: "\<exists>r. RenderWithStatus htmx c data status templateNames = Inr r"
    if "template htmx \<noteq> None" and "isHTMX c \<or> data2 \<noteq> None"
  proof -
    from that(1) obtain ts where ts: "template htmx = Some ts" by auto
    show ?thesis
    proof (cases "isHTMX c")
      case True
      then show ?thesis
        using RenderWithStatus_fragment [OF True ts dec refl] by simp
    next
      case False
      with that(2) obtain m where m: "data2 = Some m" by auto
      show ?thesis
        using RenderWithStatus_page [OF False ts dec [unfolded m] refl] by simp
    qed
  qed
  have log: "count_list (calls r) CallDecorateModel = 1
          \<and> (\<exists>content.
               calls r = [CallStatus status, CallGetHeader ''HX-Request'', CallDecorateModel]
                         @ map (\<lambda>name. CallExecuteTemplate IntoBuffer name data2) templateNames
                         @ [if isHTMX c
                            then CallData StatusOK ''text/html; charset=utf-8'' content
                            else CallExecuteTemplate IntoWriter
                                   (LayoutTemplateName (config htmx)) (model r)]
               \<and> renderTemplates htmx templateNames data2 [] []
                   = Inr (content,
                          map (\<lambda>name. CallExecuteTemplate IntoBuffer name data2) templateNames)
               \<and> (if isHTMX c then model r = data2
                   else \<exists>m. data2 = Some m
                        \<and> model r = Some (m(ContentVariableName (config htmx) \<mapsto> HTML content))))"
    if "RenderWithStatus htmx c data status templateNames = Inr r" for r
    using RenderWithStatus_Inr [OF that dec] dc cnt
    by (auto split: if_splits)
  from returns log show ?thesis
    by blast
qed

theorem decorator_once_before_templates_witness:
  "RenderWithStatus
      (NewHtmxWithConfig (Some testTemplates)
         \<lparr>LayoutTemplateName = ''layout'', ContentVariableName = ''Content'',
          ModelDecorator = Some addX\<rparr>)
      plainRequest jerry 200 [''hello'']
     = Inr \<lparr>ctx = plainRequest\<lparr>Writer :=
                     \<lparr>w_status = 200, w_size = 63, Code = Some 200, Header = Map.empty,
                      Body = ''<div>MENU</div><div><h1>Hello, Jerry!</h1></div><div>FOOT</div>''\<rparr>\<rparr>,
            model = Some [''Name'' \<mapsto> Text ''Jerry'', ''X'' \<mapsto> Text ''v'',
                          ''Content'' \<mapsto> HTML ''<h1>Hello, Jerry!</h1>''],
            calls = [CallStatus 200, CallGetHeader ''HX-Request'', CallDecorateModel,
                     CallExecuteTemplate IntoBuffer ''hello''
                       (Some [''Name'' \<mapsto> Text ''Jerry'', ''X'' \<mapsto> Text ''v'']),
                     CallExecuteTemplate IntoWriter ''layout''
                       (Some [''Name'' \<mapsto> Text ''Jerry'', ''X'' \<mapsto> Text ''v'',
                              ''Content'' \<mapsto> HTML ''<h1>Hello, Jerry!</h1>''])]\<rparr>
   \<and> count_list [CallStatus 200, CallGetHeader ''HX-Request'', CallDecorateModel,
                     CallExecuteTemplate IntoBuffer ''hello''
                       (Some [''Name'' \<mapsto> Text ''Jerry'', ''X'' \<mapsto> Text ''v'']),
                     CallExecuteTemplate IntoWriter ''layout''
                       (Some [''Name'' \<mapsto> Text ''Jerry'', ''X'' \<mapsto> Text ''v'',
                              ''Content'' \<mapsto> HTML ''<h1>Hello, Jerry!</h1>''])]
        CallDecorateModel = 1"
proof -
  let ?htmx = "NewHtmxWithConfig (Some testTemplates)
         \<lparr>LayoutTemplateName = ''layout'', ContentVariableName = ''Content'',
          ModelDecorator = Some addX\<rparr>"
  let ?r = "\<lparr>ctx = plainRequest\<lparr>Writer :=
                     \<lparr>w_status = 200, w_size = 63, Code = Some 200, Header = Map.empty,
                      Body = ''<div>MENU</div><div><h1>Hello, Jerry!</h1></div><div>FOOT</div>''\<rparr>\<rparr>,
            model = Some [''Name'' \<mapsto> Text ''Jerry'', ''X'' \<mapsto> Text ''v'',
                          ''Content'' \<mapsto> HTML ''<h1>Hello, Jerry!</h1>''],
            calls = [CallStatus 200, CallGetHeader ''HX-Request'', CallDecorateModel,
                     CallExecuteTemplate IntoBuffer ''hello''
                       (Some [''Name'' \<mapsto> Text ''Jerry'', ''X'' \<mapsto> Text ''v'']),
                     CallExecuteTemplate IntoWriter ''layout''
                       (Some [''Name'' \<mapsto> Text ''Jerry'', ''X'' \<mapsto> Text ''v'',
                              ''Content'' \<mapsto> HTML ''<h1>Hello, Jerry!</h1>''])]\<rparr>"
  have h1: "ModelDecorator (config ?htmx) = Some addX"
    by (simp add: NewHtmxWithConfig_def)
  have h2: "addX (Status plainRequest 200) jerry
              = (plainRequest, Some [''Name'' \<mapsto> Text ''Jerry'', ''X'' \<mapsto> Text ''v''])"
    by (simp add: run)
  have h3: "RenderWithStatus ?htmx plainRequest jerry 200 [''hello''] = Inr ?r"
    by (simp add: run)
  show ?thesis
    using h3 decorator_once_before_templates [OF h1 h2, of "[''hello'']"]
    by simp
qed

text \<open>
  Against claim C6: a renderer built on the nil template set is built without error, and
  its first render, a fragment request with no template names, returns normally with an
  empty body and status 200.
\<close>

theorem nil_template_render_returns:
  "template (NewHtmx None) = None \<and>
   RenderWithStatus (NewHtmx None) htmxRequest jerry 200 [] =
     Inr \<lparr>ctx = htmxRequest\<lparr>Writer :=
                   \<lparr>w_status = 200, w_size = 0, Code = Some 200,
                    Header = [''Content-Type'' \<mapsto> [''text/html; charset=utf-8'']],
                    Body = []\<rparr>\<rparr>,
          model = jerry,
          calls = [CallStatus 200, CallGetHeader ''HX-Request'',
                   CallData 200 ''text/html; charset=utf-8'' []]\<rparr>"
  by (simp add: run)

text \<open>
  Claim C6, amended: building a renderer on a nil template set does not fail, the
  renderer holds the nil reference. A render on it panics as soon as it has a template
  to execute (nil pointer dereference), or, on a full-page request with no names and a nil
  model, on storing the content (assignment to an entry of a nil map); a fragment request
  with no template names returns normally.
\<close>

theorem nil_template_set:
  assumes "template htmx = None"
    and "decorate htmx (Status c status) data = (c2, data2)"
  shows "NewHtmxWithConfig None cfg = \<lparr>template = None, config = cfg\<rparr>
     \<and> template (NewHtmx None) = None
     \<and> RenderWithStatus htmx c data status templateNames =
         (if templateNames \<noteq> [] then Inl NilPointerDereference
          else if isHTMX c
          then Inr \<lparr>ctx = Data c2 StatusOK ''text/html; charset=utf-8'' [],
                    model = data2,
                    calls = [CallStatus status, CallGetHeader ''HX-Request''] @ decorateCalls htmx
                            @ [CallData StatusOK ''text/html; charset=utf-8'' []]\<rparr>
          else if data2 = None then Inl AssignmentToEntryInNilMap
          else Inl NilPointerDereference)"
  using assms(1)
  by (auto simp: RenderWithStatus_eq [OF assms(2)] renderTemplates_None
      NewHtmxWithConfig_def NewHtmx_def ExecuteTemplate_def split: option.splits)

theorem nil_template_set_witness:
  "template (NewHtmx None) = None
   \<and> RenderWithStatus (NewHtmx None) plainRequest jerry 200 [''hello''] = Inl NilPointerDereference
   \<and> RenderWithStatus (NewHtmx None) htmxRequest jerry 200 [''hello''] = Inl NilPointerDereference
   \<and> RenderWithStatus (NewHtmx None) plainRequest jerry 200 [] = Inl NilPointerDereference
   \<and> RenderWithStatus (NewHtmx None) plainRequest None 200 [] = Inl AssignmentToEntryInNilMap"
proof -
  have h1: "template (NewHtmx None) = None"
    by (simp add: NewHtmx_def)
  have h2: "decorate (NewHtmx None) (Status c 200) data = (Status c 200, data)" for c data
    by (simp add: decorate_def NewHtmx_def)
  have p: "\<not> isHTMX plainRequest" and q: "isHTMX htmxRequest"
    by (simp_all add: run)
  show ?thesis
    using h1 p q
      nil_template_set [OF h1 h2, where c = plainRequest and data = jerry and templateNames = "[''hello'']"]
      nil_template_set [OF h1 h2, where c = htmxRequest and data = jerry and templateNames = "[''hello'']"]
      nil_template_set [OF h1 h2, where c = plainRequest and data = jerry and templateNames = "[]"]
      nil_template_set [OF h1 h2, where c = plainRequest and data = None and templateNames = "[]"]
    by (simp add: jerry_def)
qed

lemma withoutErrors_pieces: "pieces (withoutErrors ts) name data = pieces ts name data"
  by (simp add: pieces_def withoutErrors_def split: option.splits)

lemma withoutErrors_execute: "execute (withoutErrors ts) name data = execute ts name data"
  by (simp add: execute_def withoutErrors_pieces)

text \<open>
  The error of an execution is dropped: a render gives the same result on a template set
  and on the set that writes the same pieces and never fails.
\<close>

lemma errors_discarded:
  "RenderWithStatus (htmx\<lparr>template := Some ts\<rparr>) c data status templateNames
     = RenderWithStatus (htmx\<lparr>template := Some (withoutErrors ts)\<rparr>) c data status templateNames"
proof -
  have d: "decorate (htmx\<lparr>template := t\<rparr>) = decorate htmx"
    and dc: "decorateCalls (htmx\<lparr>template := t\<rparr>) = decorateCalls htmx" for t
    by (simp_all add: decorate_def decorateCalls_def fun_eq_iff)
  have loop: "renderTemplates (htmx\<lparr>template := Some (withoutErrors ts)\<rparr>) templateNames d2 [] l
        = renderTemplates (htmx\<lparr>template := Some ts\<rparr>) templateNames d2 [] l" for d2 l
    by (simp add: renderTemplates_Some withoutErrors_execute)
  obtain c2 data2 where dec: "decorate htmx (Status c status) data = (c2, data2)"
    by (cases "decorate htmx (Status c status) data")
  show ?thesis
    by (simp add: RenderWithStatus_eq [of _ c status data c2 data2] d dc dec loop
        ExecuteTemplate_Some withoutErrors_pieces
        split: prod.splits sum.splits option.splits)
qed

text \<open>
  The status in the two branches, for a response nothing has been written to: the
  fragment branch always answers 200, the full-page branch answers with the argument.
\<close>

lemma fragment_status:
  assumes "isHTMX c" and "template htmx = Some ts"
    and "decorate htmx (Status c status) data = (c2, data2)"
    and "\<not> Written (Writer c2)"
    and "RenderWithStatus htmx c data status templateNames = Inr r"
  shows "w_status (Writer (ctx r)) = StatusOK \<and> Code (Writer (ctx r)) = Some StatusOK"
  using RenderWithStatus_fragment [OF assms(1-3) refl, of templateNames] assms(4,5)
  by (auto simp: status_Data)

lemma page_status:
  assumes "\<not> isHTMX c" and "ModelDecorator (config htmx) = None"
    and "\<not> Written (Writer c)" and "0 < status"
    and "RenderWithStatus htmx c data status templateNames = Inr r"
  shows "w_status (Writer (ctx r)) = status"
proof -
  have dec: "decorate htmx (Status c status) data = (Status c status, data)"
    using assms(2) by (simp add: decorate_def)
  have st: "w_status (Writer (Status c status)) = status"
    using assms(3,4) by (simp add: Status_def WriteHeader_def)
  show ?thesis
    using assms(1,5) st
    by (auto simp: RenderWithStatus_eq [OF dec] ExecuteTemplate_def w_status_foldl_Write
        split: sum.splits option.splits prod.splits if_splits)
qed

text \<open>
  Claim C7: a failing template execution is discarded, the body is still written with the
  output produced before the failure, and the status set before is unchanged. On a
  fragment request with status 404 where \<open>hello\<close> fails after its first piece and
  \<open>missing\<close> is unknown, the render returns and the body is that first piece, but
  the response goes out with status 200.
\<close>

theorem failed_fragment_status_is_200:
  "RenderWithStatus (NewHtmx (Some testTemplates)) htmxRequest (Some Map.empty) 404
       [''hello'', ''missing''] =
     Inr \<lparr>ctx = htmxRequest\<lparr>Writer :=
                   \<lparr>w_status = 200, w_size = 11, Code = Some 200,
                    Header = [''Content-Type'' \<mapsto> [''text/html; charset=utf-8'']],
                    Body = ''<h1>Hello, ''\<rparr>\<rparr>,
          model = Some Map.empty,
          calls = [CallStatus 404, CallGetHeader ''HX-Request'',
                   CallExecuteTemplate IntoBuffer ''hello'' (Some Map.empty),
                   CallExecuteTemplate IntoBuffer ''missing'' (Some Map.empty),
                   CallData 200 ''text/html; charset=utf-8'' ''<h1>Hello, '']\<rparr>"
  by (simp add: run)

text \<open>
  Claim C8: \<^verbatim>\<open>NewHtmx\<close> builds the renderer that \<^verbatim>\<open>NewHtmxWithConfig\<close> builds from the layout
  name \<^verbatim>\<open>layout\<close>, the content variable \<^verbatim>\<open>Content\<close> and no decorator, so every render
  behaves the same on both.
\<close>

theorem default_configuration:
  "NewHtmx t = NewHtmxWithConfig t
       \<lparr>LayoutTemplateName = ''layout'', ContentVariableName = ''Content'', ModelDecorator = None\<rparr>
   \<and> RenderWithStatus (NewHtmx t) c data status templateNames
     = RenderWithStatus
         (NewHtmxWithConfig t
            \<lparr>LayoutTemplateName = ''layout'', ContentVariableName = ''Content'',
             ModelDecorator = None\<rparr>)
         c data status templateNames
   \<and> Render (NewHtmx t) c data templateNames
     = Render
         (NewHtmxWithConfig t
            \<lparr>LayoutTemplateName = ''layout'', ContentVariableName = ''Content'',
             ModelDecorator = None\<rparr>)
         c data templateNames"
  by (simp add: NewHtmx_def NewHtmxWithConfig_def)



text \<open>
  Claim C10: on a fragment request the model after the render is the model as the
  decorator left it (the caller's model when no decorator is configured); the renderer
  itself only ever assigns the content variable, in the full-page branch.
\<close>

theorem fragment_leaves_model:
  assumes "decorate htmx (Status c status) data = (c2, data2)"
  shows "(isHTMX c \<and> template htmx \<noteq> None \<longrightarrow>
          (\<exists>r. RenderWithStatus htmx c data status templateNames = Inr r))
     \<and> (\<forall>r. RenderWithStatus htmx c data status templateNames = Inr r \<longrightarrow>
          (isHTMX c \<longrightarrow> model r = data2)
          \<and> (isHTMX c \<and> ModelDecorator (config htmx) = None \<longrightarrow> model r = data)
          \<and> (\<not> isHTMX c \<longrightarrow>
               (\<exists>m content. data2 = Some m
                  \<and> model r = Some (m(ContentVariableName (config htmx) \<mapsto> HTML content)))))"
proof -
  have returns: "\<exists>r. RenderWithStatus htmx c data status templateNames = Inr r"
    if "isHTMX c" and "template htmx \<noteq> None"
  proof -
    from that(2) obtain ts where ts: "template htmx = Some ts" by auto
    show ?thesis
      using RenderWithStatus_fragment [OF that(1) ts assms refl] by simp
  qed
  have frame: "(isHTMX c \<longrightarrow> model r = data2)
          \<and> (isHTMX c \<and> ModelDecorator (config htmx) = None \<longrightarrow> model r = data)
          \<and> (\<not> isHTMX c \<longrightarrow>
               (\<exists>m content. data2 = Some m
                  \<and> model r = Some (m(ContentVariableName (config htmx) \<mapsto> HTML content))))"
    if "RenderWithStatus htmx c data status templateNames = Inr r" for r
    using RenderWithStatus_Inr [OF that assms] assms
    by (auto simp: decorate_def split: if_splits)
  from returns frame show ?thesis
    by blast
qed

theorem fragment_leaves_model_witness:
  "isHTMX htmxRequest \<and> \<not> isHTMX plainRequest
   \<and> model (projr (RenderWithStatus (NewHtmx (Some testTemplates)) htmxRequest jerry 200 [''hello'']))
       = jerry
   \<and> model (projr (RenderWithStatus (NewHtmx (Some testTemplates)) plainRequest jerry 200 [''hello'']))
       = Some [''Name'' \<mapsto> Text ''Jerry'', ''Content'' \<mapsto> HTML ''<h1>Hello, Jerry!</h1>'']"
proof -
  let ?h = "NewHtmx (Some testTemplates)"
  have p: "\<not> isHTMX plainRequest" and q: "isHTMX htmxRequest"
    by (simp_all add: run)
  have d: "decorate ?h (Status c 200) jerry = (Status c 200, jerry)" for c
    by (simp add: decorate_def NewHtmx_def)
  have n: "ModelDecorator (config ?h) = None"
    by (simp add: NewHtmx_def)
  have r1: "RenderWithStatus ?h htmxRequest jerry 200 [''hello'']
              = Inr (projr (RenderWithStatus ?h htmxRequest jerry 200 [''hello'']))"
    by (simp add: run)
  have r2: "RenderWithStatus ?h plainRequest jerry 200 [''hello'']
              = Inr (projr (RenderWithStatus ?h plainRequest jerry 200 [''hello'']))"
    by (simp add: run)
  have m2: "model (projr (RenderWithStatus ?h plainRequest jerry 200 [''hello'']))
       = Some [''Name'' \<mapsto> Text ''Jerry'', ''Content'' \<mapsto> HTML ''<h1>Hello, Jerry!</h1>'']"
    by (simp add: run)
  show ?thesis
    using p q n r1 r2 m2
      fragment_leaves_model [OF d, of htmxRequest "[''hello'']"]
      fragment_leaves_model [OF d, of plainRequest "[''hello'']"]
    by auto
qed

end
